theory Spec2Isabelle
  imports Main
begin

section \<open>JavaScript values\<close>

text \<open>
  The GraphQL transport and the prompt library hand untyped (\<open>any\<close>) values to
  \<open>run.ts\<close>, so the embedding keeps them dynamic: a value is \<open>undefined\<close>, \<open>null\<close>,
  a boolean, a number, a string, an array or an object (an association list in
  property order). Numbers are integers: the program reads no numeric field, and the
  only number it makes is an array length.
\<close>

datatype jsval =
    JUndefined
  | JNull
  | JBool bool
  | JNum int
  | JStr string
  | JArr "jsval list"
  | JObj "(string \<times> jsval) list"

text \<open>What the program can throw: a \<open>TypeError\<close> of the language, a \<open>SyntaxError\<close> of
  \<open>JSON.parse\<close>, a failure of the file system, a failure reported by the GraphQL
  transport (HTTP failure or GraphQL error payload), and \<open>new Error(message)\<close>.\<close>

datatype error =
    TypeError
  | SyntaxError
  | SystemError string
  | RequestError string
  | Error string

text \<open>Property read \<open>v.k\<close>. Reading a property of \<open>null\<close> or \<open>undefined\<close> throws; an
  object yields the property or \<open>undefined\<close>; arrays and strings have \<open>length\<close>. The
  program reads no inherited property other than \<open>length\<close> and \<open>map\<close> (for the latter see
  \<open>js_map\<close>).\<close>

fun get_prop :: "jsval \<Rightarrow> string \<Rightarrow> error + jsval" where
  "get_prop JUndefined k = Inl TypeError"
| "get_prop JNull k = Inl TypeError"
| "get_prop (JObj kvs) k = (case map_of kvs k of None \<Rightarrow> Inr JUndefined | Some v \<Rightarrow> Inr v)"
| "get_prop (JArr xs) k = (if k = ''length'' then Inr (JNum (int (length xs))) else Inr JUndefined)"
| "get_prop (JStr s) k = (if k = ''length'' then Inr (JNum (int (length s))) else Inr JUndefined)"
| "get_prop v k = Inr JUndefined"

text \<open>Property write \<open>o[k] = v\<close> on an object under construction.\<close>

fun set_prop :: "(string \<times> jsval) list \<Rightarrow> string \<Rightarrow> jsval \<Rightarrow> (string \<times> jsval) list" where
  "set_prop [] k v = [(k, v)]"
| "set_prop ((k', v') # kvs) k v = (if k' = k then (k, v) # kvs else (k', v') # set_prop kvs k v)"

text \<open>Sequencing of computations that may throw, and the in-order traversal of a list
  that stops at the first throw.\<close>

fun try_bind :: "error + 'a \<Rightarrow> ('a \<Rightarrow> error + 'b) \<Rightarrow> error + 'b" where
  "try_bind (Inl e) f = Inl e"
| "try_bind (Inr x) f = f x"

fun try_map :: "('a \<Rightarrow> error + 'b) \<Rightarrow> 'a list \<Rightarrow> error + 'b list" where
  "try_map f [] = Inr []"
| "try_map f (x # xs) =
     (case f x of
        Inl e \<Rightarrow> Inl e
      | Inr y \<Rightarrow> (case try_map f xs of Inl e \<Rightarrow> Inl e | Inr ys \<Rightarrow> Inr (y # ys)))"

text \<open>\<open>v.map(f)\<close>: only an array has a callable \<open>map\<close>; on \<open>null\<close> and \<open>undefined\<close> the
  property read throws, on every other value \<open>v.map\<close> is not a function. Both are
  \<open>TypeError\<close>.\<close>

fun js_map :: "(jsval \<Rightarrow> error + 'b) \<Rightarrow> jsval \<Rightarrow> error + 'b list" where
  "js_map f (JArr xs) = try_map f xs"
| "js_map f v = Inl TypeError"

text \<open>The comparison \<open>v > 0\<close>. It is exact on numbers, booleans, \<open>null\<close> and \<open>undefined\<close>
  (\<open>NaN > 0\<close> is false). The program applies it to a \<open>length\<close> property only, which is a
  number or \<open>undefined\<close> on every value whose object keys come from a GraphQL selection
  set; the numeric parse of a string operand is not modelled and compares as \<open>NaN\<close>.\<close>

fun js_gt_zero :: "jsval \<Rightarrow> bool" where
  "js_gt_zero (JNum n) = (0 < n)"
| "js_gt_zero (JBool b) = b"
| "js_gt_zero v = False"

subsection \<open>Template literals\<close>

function dec :: "nat \<Rightarrow> string" where
  "dec n = (if n < 10 then [''0123456789'' ! n] else dec (n div 10) @ [''0123456789'' ! (n mod 10)])"
  by pat_completeness auto
termination
  by (relation "measure id") auto

declare dec.simps [simp del]

definition dec_int :: "int \<Rightarrow> string" where
  "dec_int i = (if i < 0 then CHR ''-'' # dec (nat (- i)) else dec (nat i))"

fun join :: "string \<Rightarrow> string list \<Rightarrow> string" where
  "join sep [] = []"
| "join sep [s] = s"
| "join sep (s # t # ss) = s @ sep @ join sep (t # ss)"

text \<open>\<open>String(v)\<close>, as a template literal \<open>${v}\<close> applies it: an array joins its elements
  with commas (\<open>null\<close> and \<open>undefined\<close> elements are empty), an object is
  \<open>[object Object]\<close>. A number is written with all its digits; the exponent form that
  JavaScript uses from \<open>1e21\<close> on is not modelled (the program prints an array length
  and string fields only).\<close>

fun js_to_string :: "jsval \<Rightarrow> string" where
  "js_to_string JUndefined = ''undefined''"
| "js_to_string JNull = ''null''"
| "js_to_string (JBool b) = (if b then ''true'' else ''false'')"
| "js_to_string (JNum n) = dec_int n"
| "js_to_string (JStr s) = s"
| "js_to_string (JArr xs) =
     join '','' (map (\<lambda>x. if x = JUndefined \<or> x = JNull then [] else js_to_string x) xs)"
| "js_to_string (JObj kvs) = ''[object Object]''"

subsection \<open>\<open>JSON.stringify(v, null, gap)\<close>\<close>

text \<open>A string is quoted with \<open>"\<close> and \<open>\\<close> escaped and control characters written as
  \<open>\b \t \n \f \r\<close> or \<open>\u00XX\<close>; every other character is kept.\<close>

definition json_escape :: "char \<Rightarrow> string" where
  "json_escape c =
     (if c = CHR 0x22 then [CHR 0x5C, CHR 0x22]
      else if c = CHR 0x5C then [CHR 0x5C, CHR 0x5C]
      else if c = CHR 0x08 then [CHR 0x5C, CHR ''b'']
      else if c = CHR 0x09 then [CHR 0x5C, CHR ''t'']
      else if c = CHR 0x0A then [CHR 0x5C, CHR ''n'']
      else if c = CHR 0x0C then [CHR 0x5C, CHR ''f'']
      else if c = CHR 0x0D then [CHR 0x5C, CHR ''r'']
      else if (of_char c :: nat) < 32 then
        [CHR 0x5C, CHR ''u'', CHR ''0'', CHR ''0'',
         ''0123456789abcdef'' ! (of_char c div 16), ''0123456789abcdef'' ! (of_char c mod 16)]
      else [c])"

definition json_quote :: "string \<Rightarrow> string" where
  "json_quote s = [CHR 0x22] @ concat (map json_escape s) @ [CHR 0x22]"

text \<open>The serialisation proper: \<open>None\<close> is the \<open>undefined\<close> that \<open>JSON.stringify\<close> returns
  for \<open>undefined\<close>. An object drops the properties whose value serialises to
  \<open>undefined\<close>; an array writes them as \<open>null\<close>. \<open>ind\<close> is the current indentation.\<close>

fun stringify :: "string \<Rightarrow> string \<Rightarrow> jsval \<Rightarrow> string option" where
  "stringify gap ind JUndefined = None"
| "stringify gap ind JNull = Some ''null''"
| "stringify gap ind (JBool b) = Some (if b then ''true'' else ''false'')"
| "stringify gap ind (JNum n) = Some (dec_int n)"
| "stringify gap ind (JStr s) = Some (json_quote s)"
| "stringify gap ind (JArr xs) =
     Some (if xs = [] then ''[]''
           else ''['' @ [CHR 0x0A] @ ind @ gap
             @ join ('','' @ [CHR 0x0A] @ ind @ gap)
                 (map (\<lambda>x. case stringify gap (ind @ gap) x of None \<Rightarrow> ''null'' | Some t \<Rightarrow> t) xs)
             @ [CHR 0x0A] @ ind @ '']'')"
| "stringify gap ind (JObj kvs) =
     Some (if concat (map (\<lambda>(k, v). case stringify gap (ind @ gap) v of
                                        None \<Rightarrow> [] | Some t \<Rightarrow> [json_quote k @ '': '' @ t]) kvs) = []
           then ''{}''
           else ''{'' @ [CHR 0x0A] @ ind @ gap
             @ join ('','' @ [CHR 0x0A] @ ind @ gap)
                 (concat (map (\<lambda>(k, v). case stringify gap (ind @ gap) v of
                                        None \<Rightarrow> [] | Some t \<Rightarrow> [json_quote k @ '': '' @ t]) kvs))
             @ [CHR 0x0A] @ ind @ ''}'')"

definition JSON_stringify :: "jsval \<Rightarrow> nat \<Rightarrow> string option" where
  "JSON_stringify v n = stringify (replicate n CHR '' '') [] v"

section \<open>The world the script runs in\<close>

text \<open>\<open>Config\<close> and \<open>Publication\<close> are the two declared types of \<open>run.ts\<close>. At run time the
  values of these types come unchecked from the prompt library, \<open>JSON.parse\<close> and the
  transport, so the functions below take and return \<open>jsval\<close>; \<open>Config_obj\<close> and
  \<open>Publication_obj\<close> are the objects of the declared shape.\<close>

record Config =
  shopName :: string
  accessToken :: string

record Publication =
  gid :: string
  name :: string

definition Config_obj :: "Config \<Rightarrow> jsval" where
  "Config_obj c = JObj [(''shopName'', JStr (shopName c)), (''accessToken'', JStr (accessToken c))]"

definition Publication_obj :: "Publication \<Rightarrow> jsval" where
  "Publication_obj p = JObj [(''gid'', JStr (gid p)), (''name'', JStr (name p))]"

text \<open>A \<open>Client\<close> holds what its constructor gives the \<open>GraphQLClient\<close>.\<close>

record Client =
  url :: string
  headers :: "(string \<times> jsval) list"

text \<open>A question passed to \<open>prompts\<close>.\<close>

datatype prompt_type = TextPrompt | PasswordPrompt | SelectPrompt

record choice =
  title :: jsval
  val :: jsval

record question =
  qtype :: prompt_type
  qname :: string
  message :: string
  choices :: "choice list"

text \<open>What the operator does at one question: type a text and press enter, move the
  cursor down some number of times and press enter, or abort (Ctrl-C, Escape).\<close>

datatype operator_input = Submit string | Choose nat | Abort

text \<open>Everything the script does to its surroundings, in order.\<close>

datatype event =
    ConsoleLog string
  | ConsoleWarn string jsval
  | FileRead string
  | FileWrite string string
  | Prompts "question list"
  | Request Client string "(string \<times> jsval) list"

text \<open>The world: the directory of the script, the file system, the operator (what is
  done at the n-th question shown), the remote API (what the n-th request receives:
  data, or an error raised by the transport), the clock (the ISO-8601 instant, as a
  function of how far the run has come) and the trace of events so far.\<close>

record world =
  dirname :: string
  files :: "string \<Rightarrow> string option"
  keyboard :: "nat \<Rightarrow> operator_input"
  prompt_no :: nat
  server :: "nat \<Rightarrow> error + jsval"
  request_no :: nat
  clock :: "nat \<Rightarrow> string"
  trace :: "event list"

text \<open>An \<open>async\<close> function is a state transformer that returns a value or throws.
  The world is kept when it throws: what was printed stays printed.\<close>

type_synonym 'a io = "world \<Rightarrow> (error + 'a) \<times> world"

definition io_return :: "'a \<Rightarrow> 'a io" where
  "io_return x w = (Inr x, w)"

definition io_throw :: "error \<Rightarrow> 'a io" where
  "io_throw e w = (Inl e, w)"

definition io_lift :: "error + 'a \<Rightarrow> 'a io" where
  "io_lift r w = (r, w)"

definition io_bind :: "'a io \<Rightarrow> ('a \<Rightarrow> 'b io) \<Rightarrow> 'b io" where
  "io_bind m f w = (case m w of (Inl e, w') \<Rightarrow> (Inl e, w') | (Inr x, w') \<Rightarrow> f x w')"

definition emit :: "event \<Rightarrow> world \<Rightarrow> world" where
  "emit e w = w\<lparr>trace := trace w @ [e]\<rparr>"

subsection \<open>Console, file system, clock, transport\<close>

definition console_log :: "string \<Rightarrow> unit io" where
  "console_log s w = (Inr (), emit (ConsoleLog s) w)"

definition console_warn :: "string \<Rightarrow> jsval \<Rightarrow> unit io" where
  "console_warn s v w = (Inr (), emit (ConsoleWarn s v) w)"

text \<open>\<open>console.log(s)\<close> writes \<open>s\<close> and a newline to standard output; \<open>console.log()\<close> is
  \<open>console_log []\<close>. \<open>console.warn\<close> writes to standard error.\<close>

fun stdout :: "event list \<Rightarrow> string" where
  "stdout [] = []"
| "stdout (ConsoleLog s # es) = s @ [CHR 0x0A] @ stdout es"
| "stdout (e # es) = stdout es"

definition fs_existsSync :: "string \<Rightarrow> world \<Rightarrow> bool" where
  "fs_existsSync p w = (files w p \<noteq> None)"

definition fs_readFile :: "string \<Rightarrow> string io" where
  "fs_readFile p w =
     (case files w p of
        None \<Rightarrow> (Inl (SystemError ''ENOENT''), w)
      | Some t \<Rightarrow> (Inr t, emit (FileRead p) w))"

text \<open>\<open>fs.promises.writeFile\<close> is called and not awaited; the embedding records the
  call and lets the write take effect at once.\<close>

definition fs_writeFile :: "string \<Rightarrow> string \<Rightarrow> unit io" where
  "fs_writeFile p t w = (Inr (), emit (FileWrite p t) (w\<lparr>files := (files w)(p \<mapsto> t)\<rparr>))"

text \<open>\<open>path.join(__dirname, f)\<close>, for the normalised absolute directory that
  \<open>__dirname\<close> is.\<close>

definition path_join :: "string \<Rightarrow> string \<Rightarrow> string" where
  "path_join d f = (if d \<noteq> [] \<and> last d = CHR ''/'' then d @ f else d @ ''/'' @ f)"

definition Date_now_toISOString :: "world \<Rightarrow> string" where
  "Date_now_toISOString w = clock w (length (trace w))"

text \<open>\<open>gqlClient.request(query, variables)\<close>: one round trip. The request is recorded
  and the next response of the server is its result (data returned, error thrown).\<close>

definition request :: "Client \<Rightarrow> string \<Rightarrow> (string \<times> jsval) list \<Rightarrow> jsval io" where
  "request c q vars w =
     (server w (request_no w), emit (Request c q vars) (w\<lparr>request_no := Suc (request_no w)\<rparr>))"

subsection \<open>The \<open>prompts\<close> library\<close>

text \<open>\<open>prompts(questions)\<close> asks the questions in order and collects the answers under
  the questions' names. Called without an \<open>onCancel\<close> option, as everywhere in
  \<open>run.ts\<close>, it stops at the first aborted question and returns the answers collected
  so far: an aborted question leaves its name unset (this is the \<open>undefined\<close> that
  \<open>askProductId\<close> is typed to return, and that \<open>main\<close> tests for). A text or password
  question answers the text typed (the empty string if none). A select question
  starts at the first choice, the cursor wraps around, and it answers the \<open>value\<close> of
  the choice under the cursor, or the choice's index where that \<open>value\<close> is
  \<open>undefined\<close>. Text typed at a select question is modelled as no cursor movement,
  and cursor keys at a text question as no text.\<close>

definition chosen :: "choice list \<Rightarrow> nat \<Rightarrow> jsval" where
  "chosen cs i = (if val (cs ! i) = JUndefined then JNum (int i) else val (cs ! i))"

fun answer :: "question \<Rightarrow> operator_input \<Rightarrow> jsval option" where
  "answer q Abort = None"
| "answer q (Submit s) =
     (if qtype q = SelectPrompt then (if choices q = [] then None else Some (chosen (choices q) 0))
      else Some (JStr s))"
| "answer q (Choose k) =
     (if qtype q = SelectPrompt
      then (if choices q = [] then None else Some (chosen (choices q) (k mod length (choices q))))
      else Some (JStr []))"

fun ask :: "(string \<times> jsval) list \<Rightarrow> question list \<Rightarrow> jsval io" where
  "ask answers [] w = (Inr (JObj answers), w)"
| "ask answers (q # qs) w =
     (case answer q (keyboard w (prompt_no w)) of
        None \<Rightarrow> (Inr (JObj answers), w\<lparr>prompt_no := Suc (prompt_no w)\<rparr>)
      | Some a \<Rightarrow> ask (set_prop answers (qname q) a) qs (w\<lparr>prompt_no := Suc (prompt_no w)\<rparr>))"

definition prompts :: "question list \<Rightarrow> jsval io" where
  "prompts qs w = ask [] qs (emit (Prompts qs) w)"

section \<open>The script \<open>run.ts\<close>\<close>

subsection \<open>Prompts\<close>

definition config_questions :: "question list" where
  "config_questions =
     [\<lparr>qtype = TextPrompt, qname = ''shopName'',
       message = ''Enter shop name (<shopname>.myshopify.com):'', choices = []\<rparr>,
      \<lparr>qtype = PasswordPrompt, qname = ''accessToken'',
       message = ''Enter access token / private api key:'', choices = []\<rparr>]"

definition askConfig :: "jsval io" where
  "askConfig = prompts config_questions"

definition productId_question :: question where
  "productId_question =
     \<lparr>qtype = TextPrompt, qname = ''productId'', message = ''Enter product id'', choices = []\<rparr>"

definition askProductId :: "jsval io" where
  "askProductId =
     io_bind (prompts [productId_question]) (\<lambda>answers. io_lift (get_prop answers ''productId''))"

definition skipChoice :: choice where
  "skipChoice = \<lparr>title = JStr ''Skip'', val = JStr []\<rparr>"

definition pubChoice :: "jsval \<Rightarrow> error + choice" where
  "pubChoice pub =
     try_bind (get_prop pub ''name'') (\<lambda>n.
     try_bind (get_prop pub ''gid'') (\<lambda>g.
     Inr \<lparr>title = n, val = g\<rparr>))"

definition publicationGid_question :: "choice list \<Rightarrow> question" where
  "publicationGid_question pubChoices =
     \<lparr>qtype = SelectPrompt, qname = ''publicationGid'', message = ''Choose where to publish'',
      choices = skipChoice # pubChoices\<rparr>"

definition askPublicationGid :: "jsval list \<Rightarrow> jsval io" where
  "askPublicationGid pubs =
     io_bind (io_lift (try_map pubChoice pubs)) (\<lambda>pubChoices.
     io_bind (prompts [publicationGid_question pubChoices]) (\<lambda>answers.
     io_bind (io_lift (get_prop answers ''publicationGid'')) (\<lambda>publicationGid.
       if publicationGid = JStr [] then io_return JUndefined
       else io_return publicationGid)))"

subsection \<open>Config store\<close>

definition configPath :: "world \<Rightarrow> string" where
  "configPath w = path_join (dirname w) ''config.json''"

text \<open>\<open>JSON.parse\<close> is a parameter: the text of a file either parses to a value or
  throws. \<open>JSON.stringify\<close> of the object that \<open>prompts\<close> returns is always a string;
  were it \<open>undefined\<close>, \<open>writeFile\<close> would reject it with a \<open>TypeError\<close>.\<close>

definition loadConfig :: "(string \<Rightarrow> error + jsval) \<Rightarrow> jsval io" where
  "loadConfig JSON_parse w =
     (if fs_existsSync (configPath w) w then
        io_bind (console_log (''Using config from '' @ configPath w @ ''...'')) (\<lambda>_.
        io_bind (fs_readFile (configPath w)) (\<lambda>contents.
        io_lift (JSON_parse contents))) w
      else
        io_bind askConfig (\<lambda>config.
        io_bind (console_log (''Writing config to '' @ configPath w @ ''.'')) (\<lambda>_.
        io_bind (case JSON_stringify config 2 of
                   None \<Rightarrow> io_throw TypeError
                 | Some t \<Rightarrow> fs_writeFile (configPath w) t) (\<lambda>_.
        io_return config))) w)"

subsection \<open>API client\<close>

definition new_Client :: "jsval \<Rightarrow> error + Client" where
  "new_Client config =
     try_bind (get_prop config ''shopName'') (\<lambda>shop.
     try_bind (get_prop config ''accessToken'') (\<lambda>token.
     Inr \<lparr>url = ''https://'' @ js_to_string shop @ ''.myshopify.com/admin/api/2021-07/graphql.json'',
          headers = [(''X-Shopify-Access-Token'', token)]\<rparr>))"

text \<open>The three GraphQL documents, with runs of white space written as one space.\<close>

definition publications_query :: string where
  "publications_query = ''{ publications(first: 20) { edges { node { gid: id, name } } } }''"

definition product_publications_query :: string where
  "product_publications_query =
     ''query ($productGid: ID!) { product(id: $productGid) { resourcePublicationsV2(first: 10) { edges { node { publication { gid: id name } } } } } }''"

definition publish_mutation :: string where
  "publish_mutation =
     ''mutation ($productGid: ID!, $publicationGid: ID!, $publishDate: DateTime){ publishablePublish(id: $productGid, input:{ publicationId: $publicationGid, publishDate: $publishDate}) { userErrors { message } } }''"

definition listPublications :: "Client \<Rightarrow> jsval list io" where
  "listPublications c =
     io_bind (request c publications_query []) (\<lambda>r.
     io_lift (try_bind (get_prop r ''publications'') (\<lambda>publications.
              try_bind (get_prop publications ''edges'') (\<lambda>edges.
              js_map (\<lambda>e. get_prop e ''node'') edges))))"

definition listProductPublications :: "Client \<Rightarrow> jsval \<Rightarrow> jsval list io" where
  "listProductPublications c productId =
     io_bind (request c product_publications_query
                [(''productGid'', JStr (''gid://shopify/Product/'' @ js_to_string productId))]) (\<lambda>r.
     io_lift (try_bind (get_prop r ''product'') (\<lambda>product.
              try_bind (get_prop product ''resourcePublicationsV2'') (\<lambda>rp.
              try_bind (get_prop rp ''edges'') (\<lambda>edges.
              js_map (\<lambda>e. try_bind (get_prop e ''node'') (\<lambda>node. get_prop node ''publication''))
                edges)))))"

definition publishProduct :: "Client \<Rightarrow> jsval \<Rightarrow> jsval \<Rightarrow> unit io" where
  "publishProduct c productId publicationGid w =
     io_bind (request c publish_mutation
                [(''productGid'', JStr (''gid://shopify/Product/'' @ js_to_string productId)),
                 (''publicationGid'', publicationGid),
                 (''publishDate'', JStr (Date_now_toISOString w))]) (\<lambda>r.
     io_bind (io_lift (try_bind (get_prop r ''publishablePublish'') (\<lambda>pp.
                       get_prop pp ''userErrors''))) (\<lambda>userErrors.
     io_bind (io_lift (get_prop userErrors ''length'')) (\<lambda>len.
       if js_gt_zero len then
         io_bind (console_warn ''Got errors while publishing'' userErrors) (\<lambda>_.
         io_throw (Error ''Unable to publish''))
       else io_return ()))) w"

subsection \<open>Printer\<close>

fun print_each :: "jsval list \<Rightarrow> unit io" where
  "print_each [] = io_return ()"
| "print_each (p # ps) =
     io_bind (io_lift (try_bind (get_prop p ''name'') (\<lambda>n.
                       try_bind (get_prop p ''gid'') (\<lambda>g.
                       Inr (''* '' @ js_to_string n @ '' ('' @ js_to_string g @ '')''))))) (\<lambda>line.
     io_bind (console_log line) (\<lambda>_.
     print_each ps))"

definition printPublications :: "string \<Rightarrow> jsval list \<Rightarrow> unit io" where
  "printPublications label ps =
     io_bind (console_log []) (\<lambda>_.
     io_bind (console_log (label @ '' ('' @ dec (length ps) @ '')'' @ [CHR 0x0A])) (\<lambda>_.
     io_bind (print_each ps) (\<lambda>_.
     console_log [])))"

subsection \<open>Main\<close>

datatype control = Break | Continue

text \<open>The body of \<open>while (true)\<close>: it ends in \<open>break\<close>, or in \<open>continue\<close> or its last
  statement (both go to the next round), or it throws.\<close>

definition iteration :: "Client \<Rightarrow> jsval list \<Rightarrow> control io" where
  "iteration client allPublications =
     io_bind askProductId (\<lambda>productId.
       if productId = JUndefined \<or> productId = JStr [] then
         io_bind (console_log ''Done!'') (\<lambda>_.
         io_return Break)
       else
         io_bind (console_log (''Looking for publications for product ''
                                @ js_to_string productId @ ''...'')) (\<lambda>_.
         io_bind (listProductPublications client productId) (\<lambda>productPublications.
         io_bind (printPublications (''Publications for product '' @ js_to_string productId)
                    productPublications) (\<lambda>_.
         io_bind (askPublicationGid allPublications) (\<lambda>publicationGid.
           if publicationGid = JUndefined then
             io_bind (console_log ''Skipping.'') (\<lambda>_.
             io_return Continue)
           else
             io_bind (console_log (''Publish product '' @ js_to_string productId @ '' to ''
                                    @ js_to_string publicationGid @ ''...'')) (\<lambda>_.
             io_bind (publishProduct client productId publicationGid) (\<lambda>_.
             io_return Continue)))))))"

text \<open>The loop may run for ever (an operator who never stops): \<open>None\<close> is a run that
  does not return.\<close>

partial_function (option) loop :: "Client \<Rightarrow> jsval list \<Rightarrow> world \<Rightarrow> ((error + unit) \<times> world) option" where
  "loop client allPublications w =
     (case iteration client allPublications w of
        (Inl e, w') \<Rightarrow> Some (Inl e, w')
      | (Inr Break, w') \<Rightarrow> Some (Inr (), w')
      | (Inr Continue, w') \<Rightarrow> loop client allPublications w')"

declare loop.simps [code]

definition main :: "(string \<Rightarrow> error + jsval) \<Rightarrow> world \<Rightarrow> ((error + unit) \<times> world) option" where
  "main JSON_parse w =
     (case io_bind (loadConfig JSON_parse) (\<lambda>config.
           io_bind (io_lift (new_Client config)) (\<lambda>client.
           io_bind (listPublications client) (\<lambda>allPublications.
           io_bind (console_log ''Looking for all publications...'') (\<lambda>_.
           io_bind (printPublications ''All publications'' allPublications) (\<lambda>_.
           io_return (client, allPublications)))))) w of
        (Inl e, w') \<Rightarrow> Some (Inl e, w')
      | (Inr (client, allPublications), w') \<Rightarrow> loop client allPublications w')"

section \<open>Vocabulary of the properties\<close>

text \<open>The events a computation adds to the trace when started in a world.\<close>

definition events_during :: "'a io \<Rightarrow> world \<Rightarrow> event list" where
  "events_during m w = drop (length (trace w)) (trace (snd (m w)))"

text \<open>Requests sent to the remote API, and those among them that carry the publish
  mutation.\<close>

fun is_request :: "event \<Rightarrow> bool" where
  "is_request (Request c q vars) = True"
| "is_request e = False"

fun is_publish :: "event \<Rightarrow> bool" where
  "is_publish (Request c q vars) = (q = publish_mutation)"
| "is_publish e = False"

fun is_prompt :: "event \<Rightarrow> bool" where
  "is_prompt (Prompts qs) = True"
| "is_prompt e = False"


text \<open>The responses of the API to the three documents, in the shape of their
  selection sets: the edges of a product's publications (or \<open>null\<close> for a product the
  shop does not have), and the user errors of the publish mutation.\<close>

definition edge :: "jsval \<Rightarrow> jsval" where
  "edge publication = JObj [(''node'', JObj [(''publication'', publication)])]"

definition product_response :: "jsval list \<Rightarrow> jsval" where
  "product_response publications =
     JObj [(''product'',
       JObj [(''resourcePublicationsV2'', JObj [(''edges'', JArr (map edge publications))])])]"

definition no_product_response :: jsval where
  "no_product_response = JObj [(''product'', JNull)]"

definition publish_response :: "jsval list \<Rightarrow> jsval" where
  "publish_response userErrors = JObj [(''publishablePublish'', JObj [(''userErrors'', JArr userErrors)])]"

text \<open>A bullet line of the printer, for a publication of the declared type.\<close>

definition bullet :: "Publication \<Rightarrow> string" where
  "bullet p = ''* '' @ name p @ '' ('' @ gid p @ '')''"

text \<open>The printed block as the specification words it: a blank line, the header
  line, one bullet line per entry, a trailing blank line.\<close>

definition spec_printed :: "string \<Rightarrow> Publication list \<Rightarrow> string" where
  "spec_printed label ps =
     [CHR 0x0A] @ label @ '' ('' @ dec (length ps) @ '')'' @ [CHR 0x0A]
     @ concat (map (\<lambda>p. bullet p @ [CHR 0x0A]) ps) @ [CHR 0x0A]"

subsection \<open>Concrete worlds\<close>

text \<open>A world with no config file, an operator who aborts every question and a remote
  API that fails every request; the examples below override what they need.\<close>

definition quiet_world :: world where
  "quiet_world =
     \<lparr>dirname = ''/app'', files = Map.empty, keyboard = (\<lambda>n. Abort), prompt_no = 0,
      server = (\<lambda>n. Inl (RequestError ''no response'')), request_no = 0,
      clock = (\<lambda>n. ''2021-08-01T00:00:00.000Z''), trace = []\<rparr>"

definition online_store :: Publication where
  "online_store = \<lparr>gid = ''gid://shopify/Publication/1'', name = ''Online Store''\<rparr>"

definition acme :: Client where
  "acme = \<lparr>url = ''https://acme.myshopify.com/admin/api/2021-07/graphql.json'',
           headers = [(''X-Shopify-Access-Token'', JStr ''tok'')]\<rparr>"

definition acme_file :: string where
  "acme_file =
     ''{'' @ [CHR 0x0A]
     @ ''  '' @ [CHR 0x22] @ ''shopName'' @ [CHR 0x22] @ '': '' @ [CHR 0x22] @ ''acme'' @ [CHR 0x22] @ '',''
     @ [CHR 0x0A]
     @ ''  '' @ [CHR 0x22] @ ''accessToken'' @ [CHR 0x22] @ '': '' @ [CHR 0x22] @ ''tok'' @ [CHR 0x22]
     @ [CHR 0x0A] @ ''}''"

text \<open>A \<open>JSON.parse\<close> that knows this one file.\<close>

definition acme_only :: "string \<Rightarrow> error + jsval" where
  "acme_only t =
     (if t = acme_file then Inr (Config_obj \<lparr>shopName = ''acme'', accessToken = ''tok''\<rparr>)
      else Inl SyntaxError)"

text \<open>A publication whose identifier is the empty string.\<close>

definition unnamed_channel :: jsval where
  "unnamed_channel = JObj [(''gid'', JStr []), (''name'', JStr ''Draft channel'')]"

text \<open>The operator enters product 42 and then picks the first choice, which is Skip;
  the API knows the product and its one publication.\<close>

definition skipping_world :: world where
  "skipping_world =
     quiet_world\<lparr>keyboard := (\<lambda>n. if n = 0 then Submit ''42'' else Choose 0),
                 server := (\<lambda>n. Inr (product_response [Publication_obj online_store]))\<rparr>"

text \<open>The config file exists, the API lists one publication, and the operator aborts
  the first product-id prompt.\<close>

definition publications_response :: "jsval list \<Rightarrow> jsval" where
  "publications_response publications =
     JObj [(''publications'',
       JObj [(''edges'', JArr (map (\<lambda>p. JObj [(''node'', p)]) publications))])]"

definition stopping_world :: world where
  "stopping_world =
     quiet_world\<lparr>files := [''/app/config.json'' \<mapsto> acme_file],
                 server := (\<lambda>n. Inr (publications_response [Publication_obj online_store]))\<rparr>"

subsection \<open>Trace discipline\<close>

text \<open>\<open>emits P m\<close>: whatever the world, \<open>m\<close> only appends events to the trace, and every
  event it appends satisfies \<open>P\<close>.\<close>

definition emits :: "(event \<Rightarrow> bool) \<Rightarrow> 'a io \<Rightarrow> bool" where
  "emits P m = (\<forall>w. \<exists>es. trace (snd (m w)) = trace w @ es \<and> list_all P es)"

section \<open>Helper lemmas\<close>

subsection \<open>What each operation appends to the trace\<close>


lemma ask_object: "\<exists>kvs w'. ask answers qs w = (Inr (JObj kvs), w') \<and> trace w' = trace w \<and> files w' = files w \<and> dirname w' = dirname w"
proof (induction qs arbitrary: answers w)
  case Nil
  show ?case by simp
next
  case (Cons q qs)
  show ?case
  proof (cases "answer q (keyboard w (prompt_no w))")
    case None
    then show ?thesis by simp
  next
    case (Some a)
    with Cons.IH [of "set_prop answers (qname q) a" "w\<lparr>prompt_no := Suc (prompt_no w)\<rparr>"]
    show ?thesis by simp
  qed
qed

lemma prompts_object:
  "\<exists>kvs w'. prompts qs w = (Inr (JObj kvs), w') \<and> trace w' = trace w @ [Prompts qs]
     \<and> files w' = files w \<and> dirname w' = dirname w"
  using ask_object [of "[]" qs "emit (Prompts qs) w"]
  by (auto simp: prompts_def emit_def)

lemma emitsI: "(\<And>w. \<exists>es. trace (snd (m w)) = trace w @ es \<and> list_all P es) \<Longrightarrow> emits P m"
  by (simp add: emits_def)

lemma emitsD: "emits P m \<Longrightarrow> \<exists>es. trace (snd (m w)) = trace w @ es \<and> list_all P es"
  by (simp add: emits_def)

lemma emits_bind:
  assumes m: "emits P m" and f: "\<And>x. emits P (f x)"
  shows "emits P (io_bind m f)"
proof (rule emitsI)
  fix w
  obtain r w1 where mw: "m w = (r, w1)" by (cases "m w")
  from emitsD [OF m, of w] mw obtain es where es: "trace w1 = trace w @ es" "list_all P es"
    by auto
  show "\<exists>es. trace (snd (io_bind m f w)) = trace w @ es \<and> list_all P es"
  proof (cases r)
    case (Inl e)
    with mw es show ?thesis by (simp add: io_bind_def)
  next
    case (Inr x)
    from emitsD [OF f, of x w1] obtain fs where "trace (snd (f x w1)) = trace w1 @ fs" "list_all P fs"
      by auto
    with Inr mw es show ?thesis by (simp add: io_bind_def)
  qed
qed

lemma emits_pure [simp]: "emits P (io_return x)" "emits P (io_throw e)" "emits P (io_lift r)"
  by (simp_all add: emits_def io_return_def io_throw_def io_lift_def)

lemma emits_console_log: "P (ConsoleLog s) \<Longrightarrow> emits P (console_log s)"
  by (simp add: emits_def console_log_def emit_def)

lemma emits_console_warn: "P (ConsoleWarn s v) \<Longrightarrow> emits P (console_warn s v)"
  by (simp add: emits_def console_warn_def emit_def)

lemma emits_request: "P (Request c q vars) \<Longrightarrow> emits P (request c q vars)"
  by (simp add: emits_def request_def emit_def)

lemma emits_prompts: "P (Prompts qs) \<Longrightarrow> emits P (prompts qs)"
proof (rule emitsI)
  fix w
  assume "P (Prompts qs)"
  with prompts_object [of qs w] show "\<exists>es. trace (snd (prompts qs w)) = trace w @ es \<and> list_all P es"
    by auto
qed

lemma emits_if: "emits P a \<Longrightarrow> emits P b \<Longrightarrow> emits P (if c then a else b)"
  by simp

lemmas emits_intros =
  emits_bind emits_if emits_console_log emits_console_warn emits_request emits_prompts

lemma product_query_not_publish: "product_publications_query \<noteq> publish_mutation"
  by (simp add: product_publications_query_def publish_mutation_def)

lemma emits_askProductId:
  "(\<And>e. \<not> is_publish e \<Longrightarrow> P e) \<Longrightarrow> emits P askProductId"
  unfolding askProductId_def by (intro emits_intros) simp_all

lemma emits_askPublicationGid:
  "(\<And>e. \<not> is_publish e \<Longrightarrow> P e) \<Longrightarrow> emits P (askPublicationGid pubs)"
  unfolding askPublicationGid_def by (intro emits_intros) simp_all

lemma emits_print_each:
  "(\<And>e. \<not> is_publish e \<Longrightarrow> P e) \<Longrightarrow> emits P (print_each ps)"
  by (induction ps) (simp_all add: emits_bind emits_console_log)

lemma emits_printPublications:
  "(\<And>e. \<not> is_publish e \<Longrightarrow> P e) \<Longrightarrow> emits P (printPublications label ps)"
  unfolding printPublications_def by (intro emits_intros emits_print_each) simp_all

lemma emits_listProductPublications:
  "(\<And>e. \<not> is_publish e \<Longrightarrow> P e) \<Longrightarrow> emits P (listProductPublications c productId)"
  unfolding listProductPublications_def
  by (intro emits_intros) (simp_all add: product_query_not_publish)

lemma emits_publishProduct: "emits (\<lambda>e. True) (publishProduct c productId publicationGid)"
proof (rule emitsI)
  fix w
  have "emits (\<lambda>e. True)
     (io_bind (request c publish_mutation
                [(''productGid'', JStr (''gid://shopify/Product/'' @ js_to_string productId)),
                 (''publicationGid'', publicationGid),
                 (''publishDate'', JStr (Date_now_toISOString w))]) (\<lambda>r.
     io_bind (io_lift (try_bind (get_prop r ''publishablePublish'') (\<lambda>pp.
                       get_prop pp ''userErrors''))) (\<lambda>userErrors.
     io_bind (io_lift (get_prop userErrors ''length'')) (\<lambda>len.
       if js_gt_zero len then
         io_bind (console_warn ''Got errors while publishing'' userErrors) (\<lambda>_.
         io_throw (Error ''Unable to publish''))
       else io_return ()))))"
    by (intro emits_intros) simp_all
  from emitsD [OF this, of w]
  show "\<exists>es. trace (snd (publishProduct c productId publicationGid w)) = trace w @ es \<and> list_all (\<lambda>e. True) es"
    by (simp add: publishProduct_def)
qed

lemma run_emits:
  assumes "emits P m" and "m w = (r, w')"
  shows "\<exists>es. trace w' = trace w @ es \<and> list_all P es"
  using emitsD [OF assms(1), of w] assms(2) by simp

subsection \<open>Runs of the single operations\<close>

lemma askProductId_run:
  "askProductId w =
     (Inr (case keyboard w (prompt_no w) of
             Submit s \<Rightarrow> JStr s | Choose k \<Rightarrow> JStr [] | Abort \<Rightarrow> JUndefined),
      w\<lparr>prompt_no := Suc (prompt_no w), trace := trace w @ [Prompts [productId_question]]\<rparr>)"
  by (cases "keyboard w (prompt_no w)")
     (simp_all add: askProductId_def prompts_def productId_question_def emit_def io_bind_def io_lift_def)

lemma iteration_done:
  assumes "fst (askProductId w) = Inr productId" and "productId = JUndefined \<or> productId = JStr []"
  shows "iteration c pubs w
           = (Inr Break, w\<lparr>prompt_no := Suc (prompt_no w),
                           trace := trace w @ [Prompts [productId_question], ConsoleLog ''Done!'']\<rparr>)"
  using assms
  by (auto simp: iteration_def io_bind_def askProductId_run console_log_def emit_def io_return_def)

lemma iteration_starts:
  "\<exists>es. trace (snd (iteration c pubs w)) = trace w @ Prompts [productId_question] # es"
proof -
  let ?k = "\<lambda>productId.
       if productId = JUndefined \<or> productId = JStr [] then
         io_bind (console_log ''Done!'') (\<lambda>_.
         io_return Break)
       else
         io_bind (console_log (''Looking for publications for product ''
                                @ js_to_string productId @ ''...'')) (\<lambda>_.
         io_bind (listProductPublications c productId) (\<lambda>productPublications.
         io_bind (printPublications (''Publications for product '' @ js_to_string productId)
                    productPublications) (\<lambda>_.
         io_bind (askPublicationGid pubs) (\<lambda>publicationGid.
           if publicationGid = JUndefined then
             io_bind (console_log ''Skipping.'') (\<lambda>_.
             io_return Continue)
           else
             io_bind (console_log (''Publish product '' @ js_to_string productId @ '' to ''
                                    @ js_to_string publicationGid @ ''...'')) (\<lambda>_.
             io_bind (publishProduct c productId publicationGid) (\<lambda>_.
             io_return Continue))))))"
  have k: "emits (\<lambda>e. True) (?k v)" for v
    by (intro emits_intros emits_listProductPublications emits_printPublications
          emits_askPublicationGid emits_publishProduct) simp_all
  obtain v w1 where a: "askProductId w = (Inr v, w1)"
      and t: "trace w1 = trace w @ [Prompts [productId_question]]"
    by (simp add: askProductId_run)
  from emitsD [OF k, of v w1] obtain es where "trace (snd (?k v w1)) = trace w1 @ es"
    by auto
  with a t show ?thesis
    by (simp add: iteration_def io_bind_def)
qed



lemma publishProduct_response:
  assumes "server w (request_no w) = Inr (publish_response errs)"
  shows "publishProduct c productId publicationGid w =
     (if errs = [] then
        (Inr (), emit (Request c publish_mutation
                   [(''productGid'', JStr (''gid://shopify/Product/'' @ js_to_string productId)),
                    (''publicationGid'', publicationGid),
                    (''publishDate'', JStr (Date_now_toISOString w))])
                   (w\<lparr>request_no := Suc (request_no w)\<rparr>))
      else
        (Inl (Error ''Unable to publish''),
         emit (ConsoleWarn ''Got errors while publishing'' (JArr errs))
           (emit (Request c publish_mutation
                   [(''productGid'', JStr (''gid://shopify/Product/'' @ js_to_string productId)),
                    (''publicationGid'', publicationGid),
                    (''publishDate'', JStr (Date_now_toISOString w))])
                   (w\<lparr>request_no := Suc (request_no w)\<rparr>))))"
  using assms
  by (simp add: publishProduct_def request_def io_bind_def io_lift_def io_return_def io_throw_def
        console_warn_def publish_response_def)

lemma try_map_edges:
  "try_map (\<lambda>e. try_bind (get_prop e ''node'') (\<lambda>node. get_prop node ''publication''))
     (map edge pps) = Inr pps"
  by (induction pps) (simp_all add: edge_def)

lemma listProductPublications_run:
  "listProductPublications c productId w =
     (try_bind (server w (request_no w)) (\<lambda>r.
        try_bind (get_prop r ''product'') (\<lambda>product.
        try_bind (get_prop product ''resourcePublicationsV2'') (\<lambda>rp.
        try_bind (get_prop rp ''edges'') (\<lambda>edges.
        js_map (\<lambda>e. try_bind (get_prop e ''node'') (\<lambda>node. get_prop node ''publication''))
          edges)))),
      emit (Request c product_publications_query
              [(''productGid'', JStr (''gid://shopify/Product/'' @ js_to_string productId))])
        (w\<lparr>request_no := Suc (request_no w)\<rparr>))"
  by (cases "server w (request_no w)")
     (simp_all add: listProductPublications_def request_def io_bind_def io_lift_def)

lemma listProductPublications_events:
  "events_during (listProductPublications c productId) w
     = [Request c product_publications_query
          [(''productGid'', JStr (''gid://shopify/Product/'' @ js_to_string productId))]]"
  by (simp add: listProductPublications_run events_during_def emit_def)

lemma listProductPublications_product:
  "server w (request_no w) = Inr (product_response pps)
   \<Longrightarrow> fst (listProductPublications c productId w) = Inr pps"
  by (simp add: listProductPublications_run product_response_def try_map_edges)

lemma stdout_append: "stdout (es @ fs) = stdout es @ stdout fs"
  by (induction es rule: stdout.induct) simp_all

lemma stdout_bullets: "stdout (map (\<lambda>p. ConsoleLog (f p)) ps) = concat (map (\<lambda>p. f p @ [CHR 0x0A]) ps)"
  by (induction ps) simp_all

lemma get_prop_Publication_obj:
  "get_prop (Publication_obj p) ''name'' = Inr (JStr (name p))"
  "get_prop (Publication_obj p) ''gid'' = Inr (JStr (gid p))"
  by (simp_all add: Publication_obj_def)

lemma print_each_Publications:
  "print_each (map Publication_obj ps) w
     = (Inr (), w\<lparr>trace := trace w @ map (\<lambda>p. ConsoleLog (bullet p)) ps\<rparr>)"
proof (induction ps arbitrary: w)
  case Nil
  show ?case by (simp add: io_return_def)
next
  case (Cons p ps)
  show ?case
    by (simp add: get_prop_Publication_obj bullet_def io_bind_def io_lift_def console_log_def
          emit_def Cons.IH)
qed

lemma printPublications_Publications:
  "printPublications label (map Publication_obj ps) w
     = (Inr (), w\<lparr>trace := trace w @ [ConsoleLog [], ConsoleLog (label @ '' ('' @ dec (length ps) @ '')'' @ [CHR 0x0A])]
                      @ map (\<lambda>p. ConsoleLog (bullet p)) ps @ [ConsoleLog []]\<rparr>)"
  by (simp add: printPublications_def io_bind_def console_log_def emit_def print_each_Publications)

lemma chosen_defined: "chosen cs i \<noteq> JUndefined"
  by (simp add: chosen_def)

lemma try_map_pubChoice:
  "try_map pubChoice pubs = Inr cs \<Longrightarrow> length cs = length pubs
     \<and> (\<forall>i < length pubs. get_prop (pubs ! i) ''gid'' = Inr (val (cs ! i)))"
proof (induction pubs arbitrary: cs)
  case Nil
  then show ?case by simp
next
  case (Cons p ps)
  from Cons.prems obtain c cs' where c: "pubChoice p = Inr c" and cs': "try_map pubChoice ps = Inr cs'"
      and cs: "cs = c # cs'"
    by (auto split: sum.splits)
  from c have g: "get_prop p ''gid'' = Inr (val c)"
    by (cases "get_prop p ''name''"; cases "get_prop p ''gid''") (auto simp: pubChoice_def)
  from Cons.IH [OF cs'] g cs show ?case
    by (auto simp: nth_Cons split: nat.splits)
qed

lemma askPublicationGid_run:
  assumes "try_map pubChoice pubs = Inr cs"
  shows "askPublicationGid pubs w =
     (Inr (case answer (publicationGid_question cs) (keyboard w (prompt_no w)) of
             None \<Rightarrow> JUndefined
           | Some v \<Rightarrow> if v = JStr [] then JUndefined else v),
      w\<lparr>prompt_no := Suc (prompt_no w), trace := trace w @ [Prompts [publicationGid_question cs]]\<rparr>)"
  using assms
  by (cases "answer (publicationGid_question cs) (keyboard w (prompt_no w))")
     (simp_all add: askPublicationGid_def prompts_def emit_def io_bind_def io_lift_def io_return_def
        publicationGid_question_def)

lemma answer_defined: "answer (publicationGid_question cs) inp \<noteq> Some JUndefined"
  by (cases inp) (simp_all add: publicationGid_question_def chosen_defined)

lemma answer_None: "answer (publicationGid_question cs) inp = None \<longleftrightarrow> inp = Abort"
  by (cases inp) (simp_all add: publicationGid_question_def)

section \<open>The claims\<close>

subsection \<open>C1: user errors of the publish mutation\<close>

text \<open>Claim C1. For every response to the publish mutation, whatever the product and
  the publication: if the returned \<open>userErrors\<close> array is empty, \<open>publishProduct\<close>
  resolves without error and logs nothing; if it is not empty, whatever its elements
  are, \<open>publishProduct\<close> logs the array with \<open>console.warn\<close> and throws the error
  \<open>Unable to publish\<close>.\<close>

theorem publishProduct_userErrors:
  assumes "server w (request_no w) = Inr (publish_response errs)"
  shows "fst (publishProduct c productId publicationGid w)
           = (if errs = [] then Inr () else Inl (Error ''Unable to publish''))
       \<and> filter (\<lambda>e. \<not> is_request e) (events_during (publishProduct c productId publicationGid) w)
           = (if errs = [] then [] else [ConsoleWarn ''Got errors while publishing'' (JArr errs)])"
  using publishProduct_response [OF assms, of c productId publicationGid]
  by (simp add: events_during_def emit_def)

theorem publishProduct_userErrors_witness:
  "fst (publishProduct acme (JStr ''42'') (JStr (gid online_store))
          (quiet_world\<lparr>server := (\<lambda>n. Inr (publish_response []))\<rparr>)) = Inr ()
   \<and> fst (publishProduct acme (JStr ''42'') (JStr (gid online_store))
          (quiet_world\<lparr>server :=
             (\<lambda>n. Inr (publish_response [JObj [(''message'', JStr ''already published'')]]))\<rparr>))
       = Inl (Error ''Unable to publish'')"
  using publishProduct_userErrors
          [of "quiet_world\<lparr>server := (\<lambda>n. Inr (publish_response []))\<rparr>" "[]" acme "JStr ''42''"
              "JStr (gid online_store)"]
    publishProduct_userErrors
          [of "quiet_world\<lparr>server :=
                 (\<lambda>n. Inr (publish_response [JObj [(''message'', JStr ''already published'')]]))\<rparr>"
              "[JObj [(''message'', JStr ''already published'')]]" acme "JStr ''42''"
              "JStr (gid online_store)"]
  by simp

subsection \<open>C2: an empty or cancelled product id ends the loop\<close>

text \<open>Claim C2. In every round of the driver loop, from whatever world it starts: when
  the product-id prompt returns \<open>undefined\<close> (cancelled) or the empty string, the round
  breaks, the loop returns normally, the only events of the round are the prompt and
  the line \<open>Done!\<close>, and no request is sent (neither \<open>listProductPublications\<close> nor
  \<open>publishProduct\<close> is called). \<open>main\<close> ends with the loop, so it returns normally
  too.\<close>

theorem loop_done:
  assumes "fst (askProductId w) = Inr productId" and "productId = JUndefined \<or> productId = JStr []"
  shows "iteration c pubs w
           = (Inr Break, w\<lparr>prompt_no := Suc (prompt_no w),
                           trace := trace w @ [Prompts [productId_question], ConsoleLog ''Done!'']\<rparr>)
       \<and> loop c pubs w
           = Some (Inr (), w\<lparr>prompt_no := Suc (prompt_no w),
                              trace := trace w @ [Prompts [productId_question], ConsoleLog ''Done!'']\<rparr>)
       \<and> filter is_request (events_during (iteration c pubs) w) = []
       \<and> request_no (snd (iteration c pubs w)) = request_no w"
proof -
  from assms have "iteration c pubs w
           = (Inr Break, w\<lparr>prompt_no := Suc (prompt_no w),
                           trace := trace w @ [Prompts [productId_question], ConsoleLog ''Done!'']\<rparr>)"
    by (auto simp: iteration_def io_bind_def askProductId_run console_log_def emit_def io_return_def)
  then show ?thesis
    by (simp add: loop.simps [of c pubs w] events_during_def)
qed

theorem loop_done_witness:
  "map_option fst (loop acme [Publication_obj online_store] quiet_world) = Some (Inr ())
   \<and> map_option fst (loop acme [Publication_obj online_store]
        (quiet_world\<lparr>keyboard := (\<lambda>n. Submit [])\<rparr>)) = Some (Inr ())
   \<and> request_no (snd (iteration acme [Publication_obj online_store] quiet_world)) = 0
   \<and> map_option fst (main acme_only stopping_world) = Some (Inr ())
   \<and> map_option (request_no \<circ> snd) (main acme_only stopping_world) = Some 1"
proof -
  let ?pre = "io_bind (loadConfig acme_only) (\<lambda>config.
           io_bind (io_lift (new_Client config)) (\<lambda>client.
           io_bind (listPublications client) (\<lambda>allPublications.
           io_bind (console_log ''Looking for all publications...'') (\<lambda>_.
           io_bind (printPublications ''All publications'' allPublications) (\<lambda>_.
           io_return (client, allPublications))))))"
  have lc: "loadConfig acme_only stopping_world
      = (Inr (Config_obj \<lparr>shopName = ''acme'', accessToken = ''tok''\<rparr>),
         stopping_world\<lparr>trace := [ConsoleLog ''Using config from /app/config.json...'', FileRead ''/app/config.json'']\<rparr>)"
    by (simp add: loadConfig_def fs_existsSync_def fs_readFile_def io_bind_def io_lift_def
        console_log_def emit_def stopping_world_def quiet_world_def configPath_def path_join_def acme_only_def)
  have nc: "new_Client (Config_obj \<lparr>shopName = ''acme'', accessToken = ''tok''\<rparr>) = Inr acme"
    by (simp add: new_Client_def Config_obj_def acme_def)
  have lp: "listPublications acme w = (Inr [Publication_obj online_store], w\<lparr>request_no := Suc (request_no w), trace := trace w @ [Request acme publications_query []]\<rparr>)"
    if "server w (request_no w) = Inr (publications_response [Publication_obj online_store])" for w
    using that by (simp add: listPublications_def request_def emit_def io_bind_def io_lift_def publications_response_def)
  have pp: "printPublications ''All publications'' [Publication_obj online_store] w
     = (Inr (), w\<lparr>trace := trace w @ [ConsoleLog [], ConsoleLog (''All publications (1)'' @ [CHR 0x0A]), ConsoleLog (bullet online_store), ConsoleLog []]\<rparr>)" for w
    using printPublications_Publications [of "''All publications''" "[online_store]" w]
    by (simp add: dec.simps)
  have sw: "server stopping_world = (\<lambda>n. Inr (publications_response [Publication_obj online_store]))"
      "keyboard stopping_world = (\<lambda>n. Abort)" "request_no stopping_world = 0"
    by (simp_all add: stopping_world_def quiet_world_def)
  have pre: "fst (?pre stopping_world) = Inr (acme, [Publication_obj online_store])"
     "keyboard (snd (?pre stopping_world)) = (\<lambda>n. Abort)" "request_no (snd (?pre stopping_world)) = 1"
    by (simp_all add: io_bind_def lc io_lift_def nc lp pp sw console_log_def emit_def io_return_def)
  then obtain w' where run: "?pre stopping_world = (Inr (acme, [Publication_obj online_store]), w')"
      and k: "keyboard w' = (\<lambda>n. Abort)" and r: "request_no w' = 1"
    by (cases "?pre stopping_world") auto
  have m: "main acme_only stopping_world = loop acme [Publication_obj online_store] w'"
    unfolding main_def run by simp
  have "fst (askProductId w') = Inr JUndefined"
    by (simp add: askProductId_run k)
  from loop_done [OF this, of acme "[Publication_obj online_store]"] r
  have whole: "map_option fst (main acme_only stopping_world) = Some (Inr ())
      \<and> map_option (request_no \<circ> snd) (main acme_only stopping_world) = Some 1"
    by (simp add: m)
  from loop_done [of quiet_world JUndefined acme "[Publication_obj online_store]"]
    loop_done [of "quiet_world\<lparr>keyboard := (\<lambda>n. Submit [])\<rparr>" "JStr []" acme
                 "[Publication_obj online_store]"]
  have "map_option fst (loop acme [Publication_obj online_store] quiet_world) = Some (Inr ())
   \<and> map_option fst (loop acme [Publication_obj online_store]
        (quiet_world\<lparr>keyboard := (\<lambda>n. Submit [])\<rparr>)) = Some (Inr ())
   \<and> request_no (snd (iteration acme [Publication_obj online_store] quiet_world)) = 0"
    by (simp add: askProductId_run quiet_world_def)
  with whole show ?thesis by simp
qed

subsection \<open>C3: Skip publishes nothing and goes back to the product-id prompt\<close>

text \<open>Claim C3. In every round of the loop that reaches the publication-choice prompt
  (the product id was given, its publications were listed and printed) and in which
  that prompt yields the no-selection sentinel \<open>undefined\<close>: the round logs
  \<open>Skipping.\<close> and continues, and no event of the round is a publish request. The
  loop then runs the next round from the world the round left: what the loop returns
  is what that round decides (its error, its break, or the loop after it), and the
  first thing that round does is the product-id prompt.\<close>

theorem skip_continues:
  assumes a1: "askProductId w = (Inr productId, w1)"
    and ne: "productId \<noteq> JUndefined" "productId \<noteq> JStr []"
    and a2: "listProductPublications c productId
               (emit (ConsoleLog (''Looking for publications for product ''
                                   @ js_to_string productId @ ''...'')) w1) = (Inr pps, w2)"
    and a3: "printPublications (''Publications for product '' @ js_to_string productId) pps w2
               = (Inr (), w3)"
    and a4: "askPublicationGid pubs w3 = (Inr JUndefined, w4)"
  shows "iteration c pubs w = (Inr Continue, emit (ConsoleLog ''Skipping.'') w4)
       \<and> filter is_publish (events_during (iteration c pubs) w) = []
       \<and> loop c pubs w = loop c pubs (emit (ConsoleLog ''Skipping.'') w4)
       \<and> loop c pubs w
           = (case iteration c pubs (emit (ConsoleLog ''Skipping.'') w4) of
                (Inl e, w') \<Rightarrow> Some (Inl e, w')
              | (Inr Break, w') \<Rightarrow> Some (Inr (), w')
              | (Inr Continue, w') \<Rightarrow> loop c pubs w')
       \<and> take 1 (events_during (iteration c pubs) (emit (ConsoleLog ''Skipping.'') w4))
           = [Prompts [productId_question]]"
proof -
  let ?P = "\<lambda>e. \<not> is_publish e"
  have it: "iteration c pubs w = (Inr Continue, emit (ConsoleLog ''Skipping.'') w4)"
    using a1 ne a2 a3 a4
    by (simp add: iteration_def io_bind_def console_log_def io_return_def)
  from run_emits [OF emits_askProductId a1, of ?P]
  obtain e1 where e1: "trace w1 = trace w @ e1" "list_all ?P e1" by auto
  from run_emits [OF emits_listProductPublications a2, of ?P]
  obtain e2 where e2: "trace w2 = trace w1 @ ConsoleLog (''Looking for publications for product ''
                                   @ js_to_string productId @ ''...'') # e2" "list_all ?P e2"
    by (auto simp: emit_def)
  from run_emits [OF emits_printPublications a3, of ?P]
  obtain e3 where e3: "trace w3 = trace w2 @ e3" "list_all ?P e3" by auto
  from run_emits [OF emits_askPublicationGid a4, of ?P]
  obtain e4 where e4: "trace w4 = trace w3 @ e4" "list_all ?P e4" by auto
  have quiet: "filter is_publish (events_during (iteration c pubs) w) = []"
    using e1 e2 e3 e4 by (simp add: it events_during_def emit_def filter_empty_conv list_all_iff)
  have again: "loop c pubs w = loop c pubs (emit (ConsoleLog ''Skipping.'') w4)"
    by (subst loop.simps) (simp add: it)
  from iteration_starts [of c pubs "emit (ConsoleLog ''Skipping.'') w4"]
  have next_prompt: "take 1 (events_during (iteration c pubs) (emit (ConsoleLog ''Skipping.'') w4))
           = [Prompts [productId_question]]"
    by (auto simp: events_during_def)
  have next_round: "loop c pubs w
           = (case iteration c pubs (emit (ConsoleLog ''Skipping.'') w4) of
                (Inl e, w') \<Rightarrow> Some (Inl e, w')
              | (Inr Break, w') \<Rightarrow> Some (Inr (), w')
              | (Inr Continue, w') \<Rightarrow> loop c pubs w')"
    using loop.simps [of c pubs "emit (ConsoleLog ''Skipping.'') w4"] again by simp
  from it quiet again next_round next_prompt show ?thesis by simp
qed

theorem skip_continues_witness:
  "fst (iteration acme [Publication_obj online_store] skipping_world) = Inr Continue
   \<and> filter is_publish (events_during (iteration acme [Publication_obj online_store]) skipping_world) = []
   \<and> map_option fst (loop acme [Publication_obj online_store] skipping_world) = Some (Inr ())
   \<and> map_option (trace \<circ> snd) (loop acme [Publication_obj online_store] skipping_world)
       = Some [Prompts [productId_question],
               ConsoleLog ''Looking for publications for product 42...'',
               Request acme product_publications_query
                 [(''productGid'', JStr ''gid://shopify/Product/42'')],
               ConsoleLog [],
               ConsoleLog (''Publications for product 42 (1)'' @ [CHR 0x0A]),
               ConsoleLog ''* Online Store (gid://shopify/Publication/1)'',
               ConsoleLog [],
               Prompts [publicationGid_question
                          [\<lparr>title = JStr ''Online Store'',
                            val = JStr ''gid://shopify/Publication/1''\<rparr>]],
               ConsoleLog ''Skipping.'',
               Prompts [productId_question],
               ConsoleLog ''Done!'']"
proof -
  let ?pubs = "[Publication_obj online_store]"
  let ?cs = "[\<lparr>title = JStr ''Online Store'', val = JStr ''gid://shopify/Publication/1''\<rparr>]"
  define w1 where "w1 = snd (askProductId skipping_world)"
  define w1' where "w1' = emit (ConsoleLog (''Looking for publications for product ''
                                   @ js_to_string (JStr ''42'') @ ''...'')) w1"
  define w2 where "w2 = snd (listProductPublications acme (JStr ''42'') w1')"
  define w3 where "w3 = snd (printPublications (''Publications for product ''
                                @ js_to_string (JStr ''42'')) ?pubs w2)"
  define w4 where "w4 = snd (askPublicationGid ?pubs w3)"
  define w5 where "w5 = emit (ConsoleLog ''Skipping.'') w4"
  have a1: "askProductId skipping_world = (Inr (JStr ''42''), w1)"
    by (simp add: w1_def askProductId_run skipping_world_def quiet_world_def)
  have s1: "prompt_no w1' = 1" "request_no w1' = 0"
      "keyboard w1' = (\<lambda>n. if n = 0 then Submit ''42'' else Choose 0)"
      "server w1' = (\<lambda>n. Inr (product_response ?pubs))"
      "trace w1' = [Prompts [productId_question],
                    ConsoleLog ''Looking for publications for product 42...'']"
    by (simp_all add: w1'_def w1_def askProductId_run emit_def skipping_world_def quiet_world_def)
  have "fst (listProductPublications acme (JStr ''42'') w1') = Inr ?pubs"
    by (rule listProductPublications_product) (simp add: s1)
  then have a2: "listProductPublications acme (JStr ''42'') w1' = (Inr ?pubs, w2)"
    by (simp add: w2_def prod_eq_iff)
  have s2: "prompt_no w2 = 1" "keyboard w2 = (\<lambda>n. if n = 0 then Submit ''42'' else Choose 0)"
      "trace w2 = [Prompts [productId_question],
                   ConsoleLog ''Looking for publications for product 42...'',
                   Request acme product_publications_query
                     [(''productGid'', JStr ''gid://shopify/Product/42'')]]"
    by (simp_all add: w2_def listProductPublications_run emit_def s1)
  have pp: "printPublications (''Publications for product '' @ js_to_string (JStr ''42'')) ?pubs w2
      = (Inr (), w2\<lparr>trace := trace w2 @
              [ConsoleLog [], ConsoleLog (''Publications for product 42 (1)'' @ [CHR 0x0A]),
               ConsoleLog (bullet online_store), ConsoleLog []]\<rparr>)"
    using printPublications_Publications
            [of "''Publications for product '' @ js_to_string (JStr ''42'')" "[online_store]" w2]
    by (simp add: dec.simps)
  then have a3: "printPublications (''Publications for product '' @ js_to_string (JStr ''42''))
                   ?pubs w2 = (Inr (), w3)"
    by (simp add: w3_def)
  have s3: "prompt_no w3 = 1" "keyboard w3 = (\<lambda>n. if n = 0 then Submit ''42'' else Choose 0)"
      "trace w3 = trace w2 @
              [ConsoleLog [], ConsoleLog (''Publications for product 42 (1)'' @ [CHR 0x0A]),
               ConsoleLog (bullet online_store), ConsoleLog []]"
    using pp by (simp_all add: w3_def s2)
  have cs: "try_map pubChoice ?pubs = Inr ?cs"
    by (simp add: pubChoice_def Publication_obj_def online_store_def)
  have run4: "askPublicationGid ?pubs w3
      = (Inr JUndefined,
         w3\<lparr>prompt_no := Suc (prompt_no w3),
            trace := trace w3 @ [Prompts [publicationGid_question ?cs]]\<rparr>)"
    by (simp add: askPublicationGid_run [OF cs] s3 publicationGid_question_def chosen_def
          skipChoice_def)
  then have a4: "askPublicationGid ?pubs w3 = (Inr JUndefined, w4)"
    by (simp add: w4_def)
  have s5: "prompt_no w5 = 2" "keyboard w5 = (\<lambda>n. if n = 0 then Submit ''42'' else Choose 0)"
      "trace w5 = trace w3 @ [Prompts [publicationGid_question ?cs], ConsoleLog ''Skipping.'']"
    using run4 by (simp_all add: w5_def w4_def emit_def s3)
  have "fst (askProductId w5) = Inr (JStr [])"
    by (simp add: askProductId_run s5)
  then have brk: "iteration acme ?pubs w5
      = (Inr Break, w5\<lparr>prompt_no := Suc (prompt_no w5),
                        trace := trace w5 @ [Prompts [productId_question], ConsoleLog ''Done!'']\<rparr>)"
    by (rule iteration_done) simp
  from skip_continues [OF a1 _ _ a2 [unfolded w1'_def] a3 a4]
  have "fst (iteration acme ?pubs skipping_world) = Inr Continue
      \<and> filter is_publish (events_during (iteration acme ?pubs) skipping_world) = []
      \<and> loop acme ?pubs skipping_world
          = Some (Inr (), w5\<lparr>prompt_no := Suc (prompt_no w5),
                            trace := trace w5 @ [Prompts [productId_question], ConsoleLog ''Done!'']\<rparr>)"
    by (auto simp: brk w5_def [symmetric])
  then show ?thesis
    by (simp add: s5 s3 s2 bullet_def online_store_def)
qed

subsection \<open>C4: product ids are not validated locally\<close>

text \<open>The claim as stated fails: for a product the shop does not have, the API answers
  \<open>product: null\<close>, and reading \<open>resourcePublicationsV2\<close> of \<open>null\<close> throws a
  \<open>TypeError\<close> inside \<open>listProductPublications\<close>.\<close>

theorem listProductPublications_null_product_counterexample:
  "fst (listProductPublications acme (JStr ''0'')
          (quiet_world\<lparr>server := (\<lambda>n. Inr no_product_response)\<rparr>)) = Inl TypeError"
  by (simp add: listProductPublications_run no_product_response_def)

text \<open>Claim C4, amended. For every product id, whatever its format,
  \<open>listProductPublications\<close> sends exactly one request, whose \<open>productGid\<close> variable is
  \<open>gid://shopify/Product/\<close> followed by the id as it was given (no local validation);
  an error raised by the transport is thrown unchanged; a response whose \<open>product\<close>
  field is a product object yields exactly its publications (none for an empty edge
  list). The function is not total over responses: on \<open>product: null\<close> it throws a
  \<open>TypeError\<close>.\<close>

theorem listProductPublications_no_validation:
  "events_during (listProductPublications c (JStr productId)) w
     = [Request c product_publications_query
          [(''productGid'', JStr (''gid://shopify/Product/'' @ productId))]]
   \<and> (\<forall>e. server w (request_no w) = Inl e \<longrightarrow>
          fst (listProductPublications c (JStr productId) w) = Inl e)
   \<and> (\<forall>pps. server w (request_no w) = Inr (product_response pps) \<longrightarrow>
          fst (listProductPublications c (JStr productId) w) = Inr pps)
   \<and> (server w (request_no w) = Inr no_product_response \<longrightarrow>
          fst (listProductPublications c (JStr productId) w) = Inl TypeError)"
  by (simp add: listProductPublications_events listProductPublications_product)
     (simp add: listProductPublications_run no_product_response_def)

theorem listProductPublications_no_validation_witness:
  "fst (listProductPublications acme (JStr ''not-an-id'')
          (quiet_world\<lparr>server := (\<lambda>n. Inr (product_response []))\<rparr>)) = Inr []
   \<and> fst (listProductPublications acme (JStr ''not-an-id'') quiet_world)
       = Inl (RequestError ''no response'')
   \<and> fst (listProductPublications acme (JStr ''not-an-id'')
          (quiet_world\<lparr>server := (\<lambda>n. Inr no_product_response)\<rparr>)) = Inl TypeError"
  using listProductPublications_no_validation
          [of acme "''not-an-id''" "quiet_world\<lparr>server := (\<lambda>n. Inr (product_response []))\<rparr>"]
        listProductPublications_no_validation [of acme "''not-an-id''" quiet_world]
        listProductPublications_no_validation
          [of acme "''not-an-id''" "quiet_world\<lparr>server := (\<lambda>n. Inr no_product_response)\<rparr>"]
  by (simp add: quiet_world_def)

subsection \<open>C5: a cancelled config prompt\<close>

text \<open>Claim C5 says that the config prompt always returns an object with both fields and
  that a cancelled prompt aborts the run. The code at the failing input: the operator
  answers the shop name and aborts the access-token question. \<open>askConfig\<close> returns the
  object with the one field collected, and \<open>loadConfig\<close> writes that object to the
  config file and returns it; nothing is thrown.\<close>

theorem askConfig_cancelled_partial:
  "fst (askConfig (quiet_world\<lparr>keyboard := (\<lambda>n. if n = 0 then Submit ''acme'' else Abort)\<rparr>))
     = Inr (JObj [(''shopName'', JStr ''acme'')])
   \<and> fst (loadConfig acme_only
            (quiet_world\<lparr>keyboard := (\<lambda>n. if n = 0 then Submit ''acme'' else Abort)\<rparr>))
       = Inr (JObj [(''shopName'', JStr ''acme'')])
   \<and> files (snd (loadConfig acme_only
                   (quiet_world\<lparr>keyboard := (\<lambda>n. if n = 0 then Submit ''acme'' else Abort)\<rparr>)))
        ''/app/config.json''
       = Some (''{'' @ [CHR 0x0A] @ ''  '' @ [CHR 0x22] @ ''shopName'' @ [CHR 0x22] @ '': ''
               @ [CHR 0x22] @ ''acme'' @ [CHR 0x22] @ [CHR 0x0A] @ ''}'')"
  by (simp add: askConfig_def prompts_def config_questions_def emit_def quiet_world_def
        loadConfig_def fs_existsSync_def configPath_def path_join_def io_bind_def console_log_def
        fs_writeFile_def io_return_def JSON_stringify_def json_quote_def json_escape_def
        eval_nat_numeral)

subsection \<open>C6: an existing config file is returned as parsed\<close>

text \<open>Claim C6. In every world in which the config file exists at \<open>configPath\<close> and its
  contents parse, \<open>loadConfig\<close> returns exactly the parsed value; it logs the path and
  reads the file, and it never calls \<open>prompts\<close>: no prompt event, and no input of the
  operator is consumed.\<close>

theorem loadConfig_existing:
  assumes "files w (configPath w) = Some contents" and "JSON_parse contents = Inr config"
  shows "fst (loadConfig JSON_parse w) = Inr config
       \<and> events_during (loadConfig JSON_parse) w
           = [ConsoleLog (''Using config from '' @ configPath w @ ''...''), FileRead (configPath w)]
       \<and> filter is_prompt (events_during (loadConfig JSON_parse) w) = []
       \<and> prompt_no (snd (loadConfig JSON_parse w)) = prompt_no w"
  using assms
  by (simp add: loadConfig_def fs_existsSync_def fs_readFile_def io_bind_def io_lift_def
        console_log_def emit_def events_during_def)

theorem loadConfig_existing_witness:
  "fst (loadConfig acme_only (quiet_world\<lparr>files := [''/app/config.json'' \<mapsto> acme_file]\<rparr>))
     = Inr (Config_obj \<lparr>shopName = ''acme'', accessToken = ''tok''\<rparr>)
   \<and> filter is_prompt (events_during (loadConfig acme_only)
        (quiet_world\<lparr>files := [''/app/config.json'' \<mapsto> acme_file]\<rparr>)) = []"
  using loadConfig_existing
          [of "quiet_world\<lparr>files := [''/app/config.json'' \<mapsto> acme_file]\<rparr>" acme_file acme_only
              "Config_obj \<lparr>shopName = ''acme'', accessToken = ''tok''\<rparr>"]
  by (simp add: quiet_world_def configPath_def path_join_def acme_only_def)

subsection \<open>C7: an absent config file is asked for and written\<close>




subsection \<open>C8: a product's publications mirror the response\<close>

text \<open>The claim as stated fails in its bound: the client returns as many elements as the
  response has edges. Given eleven edges it returns eleven publications.\<close>

theorem listProductPublications_eleven_counterexample:
  "fst (listProductPublications acme (JStr ''42'')
          (quiet_world\<lparr>server :=
             (\<lambda>n. Inr (product_response (replicate 11 (Publication_obj online_store))))\<rparr>))
     = Inr (replicate 11 (Publication_obj online_store))
   \<and> \<not> length (replicate 11 (Publication_obj online_store)) \<le> 10"
  using listProductPublications_product
          [of "quiet_world\<lparr>server :=
                 (\<lambda>n. Inr (product_response (replicate 11 (Publication_obj online_store))))\<rparr>"
              "replicate 11 (Publication_obj online_store)" acme "JStr ''42''"]
  by simp

text \<open>Claim C8, amended. For every product id string and every response whose \<open>product\<close>
  field is a product object, \<open>listProductPublications\<close> sends the query with the
  identifier \<open>gid://shopify/Product/\<close> followed by the id, and returns exactly the list
  of the publication objects nested in the edges of the response, in the order of the
  response; its length is the number of edges of the response. The client puts no
  bound of its own on that length (the query asks the server for the first ten).\<close>

theorem listProductPublications_mirrors:
  assumes "server w (request_no w) = Inr (product_response pps)"
  shows "filter is_request (events_during (listProductPublications c (JStr productId)) w)
           = [Request c product_publications_query
                [(''productGid'', JStr (''gid://shopify/Product/'' @ productId))]]
         \<and> (\<exists>rs. fst (listProductPublications c (JStr productId) w) = Inr rs
                \<and> rs = pps \<and> length rs = length pps)"
  using assms by (simp add: listProductPublications_events listProductPublications_product)

theorem listProductPublications_mirrors_witness:
  "fst (listProductPublications acme (JStr ''42'')
          (quiet_world\<lparr>server := (\<lambda>n. Inr (product_response [Publication_obj online_store]))\<rparr>))
     = Inr [Publication_obj online_store]"
  using listProductPublications_mirrors
          [of "quiet_world\<lparr>server := (\<lambda>n. Inr (product_response [Publication_obj online_store]))\<rparr>"
              "[Publication_obj online_store]" acme "''42''"]
  by simp

subsection \<open>C9: the printed block\<close>

text \<open>The claim as stated fails: the header is logged with a newline of its own at its
  end, so a blank line follows the header line. For the one publication of the
  end-to-end scenario the output differs from the block the claim describes.\<close>

theorem printPublications_spec_counterexample:
  "stdout (events_during (printPublications ''All publications'' [Publication_obj online_store])
             quiet_world)
     \<noteq> spec_printed ''All publications'' [online_store]"
proof -
  have "events_during (printPublications ''All publications'' [Publication_obj online_store]) quiet_world
          = [ConsoleLog [], ConsoleLog (''All publications (1)'' @ [CHR 0x0A]),
             ConsoleLog (bullet online_store), ConsoleLog []]"
    using printPublications_Publications [of "''All publications''" "[online_store]" quiet_world]
    by (simp add: events_during_def dec.simps)
  then show ?thesis
    by (simp add: spec_printed_def bullet_def online_store_def dec.simps)
qed

text \<open>Claim C9, amended. For every label and every list of publications,
  \<open>printPublications\<close> returns normally and writes, in order and nothing else: one
  blank line, the header line \<open>{label} ({count})\<close> with the length of the list, one
  blank line, one bullet line \<open>* {name} ({gid})\<close> per entry in list order, and one
  trailing blank line.\<close>

theorem printPublications_writes:
  "fst (printPublications label (map Publication_obj ps) w) = Inr ()
   \<and> events_during (printPublications label (map Publication_obj ps)) w
       = [ConsoleLog [], ConsoleLog (label @ '' ('' @ dec (length ps) @ '')'' @ [CHR 0x0A])]
         @ map (\<lambda>p. ConsoleLog (bullet p)) ps @ [ConsoleLog []]
   \<and> stdout (events_during (printPublications label (map Publication_obj ps)) w)
       = [CHR 0x0A] @ label @ '' ('' @ dec (length ps) @ '')'' @ [CHR 0x0A] @ [CHR 0x0A]
         @ concat (map (\<lambda>p. bullet p @ [CHR 0x0A]) ps) @ [CHR 0x0A]"
  by (simp add: printPublications_Publications events_during_def stdout_append stdout_bullets)

subsection \<open>C10: the skip sentinel is the empty string\<close>

text \<open>Claim C10. For every list of publications from which the choices can be built,
  \<open>askPublicationGid\<close> returns \<open>undefined\<close> exactly when the prompt was cancelled or the
  value of the selected choice is the empty string. So selecting Skip (the first
  choice) returns \<open>undefined\<close>, and so does selecting any publication whose \<open>gid\<close> is the
  empty string: neither can be told from the other, nor from a cancelled prompt.\<close>

theorem askPublicationGid_skip_sentinel:
  assumes "try_map pubChoice pubs = Inr cs"
  shows "(fst (askPublicationGid pubs w) = Inr JUndefined
            \<longleftrightarrow> keyboard w (prompt_no w) = Abort
                \<or> answer (publicationGid_question cs) (keyboard w (prompt_no w)) = Some (JStr []))
       \<and> (keyboard w (prompt_no w) = Choose 0 \<longrightarrow> fst (askPublicationGid pubs w) = Inr JUndefined)
       \<and> (\<forall>i. i < length pubs \<and> get_prop (pubs ! i) ''gid'' = Inr (JStr [])
                \<and> keyboard w (prompt_no w) = Choose (Suc i)
              \<longrightarrow> fst (askPublicationGid pubs w) = Inr JUndefined)"
proof -
  let ?q = "publicationGid_question cs"
  let ?a = "answer ?q (keyboard w (prompt_no w))"
  have run: "fst (askPublicationGid pubs w)
      = Inr (case ?a of None \<Rightarrow> JUndefined | Some v \<Rightarrow> if v = JStr [] then JUndefined else v)"
    by (simp add: askPublicationGid_run [OF assms])
  have iff: "fst (askPublicationGid pubs w) = Inr JUndefined
            \<longleftrightarrow> keyboard w (prompt_no w) = Abort \<or> ?a = Some (JStr [])"
    using answer_defined [of cs "keyboard w (prompt_no w)"] answer_None [of cs "keyboard w (prompt_no w)"]
    by (cases ?a) (auto simp: run)
  have skip: "keyboard w (prompt_no w) = Choose 0 \<longrightarrow> fst (askPublicationGid pubs w) = Inr JUndefined"
    by (simp add: run publicationGid_question_def chosen_def skipChoice_def)
  have empty_gid: "\<forall>i. i < length pubs \<and> get_prop (pubs ! i) ''gid'' = Inr (JStr [])
                \<and> keyboard w (prompt_no w) = Choose (Suc i)
              \<longrightarrow> fst (askPublicationGid pubs w) = Inr JUndefined"
  proof (intro allI impI)
    fix i
    assume h: "i < length pubs \<and> get_prop (pubs ! i) ''gid'' = Inr (JStr [])
                \<and> keyboard w (prompt_no w) = Choose (Suc i)"
    with try_map_pubChoice [OF assms] have "length cs = length pubs" "val (cs ! i) = JStr []"
      by auto
    with h show "fst (askPublicationGid pubs w) = Inr JUndefined"
      by (simp add: run publicationGid_question_def chosen_def)
  qed
  from iff skip empty_gid show ?thesis by blast
qed

theorem askPublicationGid_skip_sentinel_witness:
  "fst (askPublicationGid [Publication_obj online_store, unnamed_channel] quiet_world) = Inr JUndefined
   \<and> fst (askPublicationGid [Publication_obj online_store, unnamed_channel]
            (quiet_world\<lparr>keyboard := (\<lambda>n. Choose 0)\<rparr>)) = Inr JUndefined
   \<and> fst (askPublicationGid [Publication_obj online_store, unnamed_channel]
            (quiet_world\<lparr>keyboard := (\<lambda>n. Choose 2)\<rparr>)) = Inr JUndefined"
proof -
  let ?pubs = "[Publication_obj online_store, unnamed_channel]"
  let ?cs = "[\<lparr>title = JStr ''Online Store'', val = JStr ''gid://shopify/Publication/1''\<rparr>,
              \<lparr>title = JStr ''Draft channel'', val = JStr []\<rparr>]"
  have cs: "try_map pubChoice ?pubs = Inr ?cs"
    by (simp add: pubChoice_def Publication_obj_def online_store_def unnamed_channel_def)
  have g: "get_prop (?pubs ! 1) ''gid'' = Inr (JStr [])"
    by (simp add: unnamed_channel_def)
  show ?thesis
    using askPublicationGid_skip_sentinel [OF cs, of quiet_world]
      askPublicationGid_skip_sentinel [OF cs, of "quiet_world\<lparr>keyboard := (\<lambda>n. Choose 0)\<rparr>"]
      askPublicationGid_skip_sentinel [OF cs, of "quiet_world\<lparr>keyboard := (\<lambda>n. Choose 2)\<rparr>"] g
    by (simp add: quiet_world_def eval_nat_numeral)
qed

end
